theory Spec2Isabelle
  imports Main "HOL-Library.AList" "HOL-Library.Sublist"
begin

section \<open>JavaScript values and errors\<close>

text \<open>
  The library is JavaScript (with Flow annotations). An exception is a value of
  \<open>js_error\<close>; a function that can throw returns \<open>js_error + 'a\<close>, and one that
  mutates its object before or after it throws returns the object as well.
\<close>

datatype js_error =
    Error string
  | TypeError string
  | InputDataError string
  | SmartContractInstantiationError string
  | NotDeployedError string
  | ObsoleteRecordError string
  | RemoteDataReadError string
  | RemoteWriteError string
  | SchemaResolutionError string

text \<open>\<open>err.message\<close>.\<close>

fun message :: "js_error \<Rightarrow> string" where
  "message (Error m) = m"
| "message (TypeError m) = m"
| "message (InputDataError m) = m"
| "message (SmartContractInstantiationError m) = m"
| "message (NotDeployedError m) = m"
| "message (ObsoleteRecordError m) = m"
| "message (RemoteDataReadError m) = m"
| "message (RemoteWriteError m) = m"
| "message (SchemaResolutionError m) = m"

text \<open>
  \<open>String.prototype.toLowerCase\<close> on the ASCII letters, which is all a URI scheme holds;
  every other byte is kept.
\<close>

definition lower_char :: "char \<Rightarrow> char" where
  "lower_char c =
     (let n = (of_char c :: nat) in if 65 \<le> n \<and> n \<le> 90 then char_of (n + 32) else c)"

definition toLowerCase :: "string \<Rightarrow> string" where
  "toLowerCase s = map lower_char s"

section \<open>OffChainDataClient (src/off-chain-data-client.js)\<close>

text \<open>
  An adapter's configuration is \<open>{options, create}\<close>; \<open>create\<close> is the caller's function
  and may throw.
\<close>

record ('o, 'a) adapter_config =
  options :: 'o
  create :: "'o \<Rightarrow> js_error + 'a"

text \<open>
  A plain object \<open>{}\<close> is the list of its own properties in the order \<open>Object.keys\<close>
  enumerates them. The operator \<open>in\<close> and a property read also see what the object
  inherits from \<open>Object.prototype\<close>.
\<close>

definition Object_prototype_keys :: "string list" where
  "Object_prototype_keys =
     [''constructor'', ''__defineGetter__'', ''__defineSetter__'', ''hasOwnProperty'',
      ''__lookupGetter__'', ''__lookupSetter__'', ''isPrototypeOf'',
      ''propertyIsEnumerable'', ''toString'', ''valueOf'', ''__proto__'',
      ''toLocaleString'']"

definition js_in :: "string \<Rightarrow> (string \<times> 'v) list \<Rightarrow> bool" where
  "js_in k obj \<longleftrightarrow> k \<in> set (map fst obj) \<or> k \<in> set Object_prototype_keys"

datatype 'v js_property = Own 'v | Inherited | Missing

definition js_get :: "(string \<times> 'v) list \<Rightarrow> string \<Rightarrow> 'v js_property" where
  "js_get obj k =
     (case map_of obj k of
        Some v \<Rightarrow> Own v
      | None \<Rightarrow> if k \<in> set Object_prototype_keys then Inherited else Missing)"

record ('o, 'a) OffChainDataClientOptionsType =
  adapters :: "(string \<times> ('o, 'a) adapter_config) list option"

text \<open>The loop of \<open>setup\<close>: \<open>acc\<close> is the local object \<open>adapters\<close> built so far.\<close>

fun setup_keys ::
  "(string \<times> 'c) list \<Rightarrow> (string \<times> 'c) list \<Rightarrow> js_error + (string \<times> 'c) list" where
  "setup_keys [] acc = Inr acc"
| "setup_keys ((key, cfg) # rest) acc =
     (let normalizedKey = toLowerCase key in
      if js_in normalizedKey acc
      then Inl (Error (''Adapter declared twice: '' @ normalizedKey))
      else setup_keys rest (acc @ [(normalizedKey, cfg)]))"

text \<open>
  \<open>OffChainDataClient.setup(options)\<close>: \<open>options || {}\<close>, then the keys of
  \<open>options.adapters || {}\<close> in lower case. The result is the module-level
  \<open>offChainDataOptions.adapters\<close>.
\<close>

definition OffChainDataClient_setup ::
  "('o, 'a) OffChainDataClientOptionsType option \<Rightarrow>
   js_error + (string \<times> ('o, 'a) adapter_config) list" where
  "OffChainDataClient_setup opts =
     (case opts of
        None \<Rightarrow> Inr []
      | Some ops \<Rightarrow>
          (case adapters ops of
             None \<Rightarrow> Inr []
           | Some declared \<Rightarrow> setup_keys declared []))"

text \<open>
  \<open>OffChainDataClient.getAdapter(schema)\<close> on the configured registry. An inherited
  property is truthy, so the lookup passes the guard, and \<open>adapter.create(adapter.options)\<close>
  throws a \<open>TypeError\<close>: for \<open>constructor\<close> it is \<open>Object.create(undefined)\<close>, any other
  inherited object has no \<open>create\<close>.
\<close>

definition OffChainDataClient_getAdapter ::
  "(string \<times> ('o, 'a) adapter_config) list \<Rightarrow> string option \<Rightarrow> js_error + 'a" where
  "OffChainDataClient_getAdapter registry schema0 =
     (case map_option toLowerCase schema0 of
        None \<Rightarrow> Inl (Error ''Unsupported data storage type: null'')
      | Some schema \<Rightarrow>
          if schema = [] then Inl (Error ''Unsupported data storage type: null'')
          else (case js_get registry schema of
                  Missing \<Rightarrow> Inl (Error (''Unsupported data storage type: '' @ schema))
                | Inherited \<Rightarrow>
                    if schema = ''constructor''
                    then Inl (TypeError ''Object prototype may only be an Object or null: undefined'')
                    else Inl (TypeError ''adapter.create is not a function'')
                | Own adapter \<Rightarrow> create adapter (options adapter)))"

text \<open>
  A configuration that declares the adapters \<open>JSON\<close> and \<open>in-memory\<close>, and the
  registry \<open>setup\<close> makes of it.
\<close>

definition example_options :: "(nat, string) OffChainDataClientOptionsType" where
  "example_options =
     \<lparr>adapters = Some
        [(''JSON'', \<lparr>options = 1, create = (\<lambda>n. Inr ''json-adapter'')\<rparr>),
         (''in-memory'', \<lparr>options = 2, create = (\<lambda>n. Inr ''memory-adapter'')\<rparr>)]\<rparr>"

definition example_registry :: "(string \<times> (nat, string) adapter_config) list" where
  "example_registry =
     [(''json'', \<lparr>options = 1, create = (\<lambda>n. Inr ''json-adapter'')\<rparr>),
      (''in-memory'', \<lparr>options = 2, create = (\<lambda>n. Inr ''memory-adapter'')\<rparr>)]"

section \<open>Web3UriWTIndexDataProvider (src/data-model/web3-uri/wt-index.js)\<close>

text \<open>
  \<open>parseInt(s, 10)\<close>: leading white space, an optional sign, then the longest run of
  decimal digits; \<open>None\<close> is \<open>NaN\<close>. The value is an unbounded integer where JavaScript
  has a double: the code only tests it for falsiness, and rounding never turns a
  non-zero integer into zero.
\<close>

definition is_whitespace :: "char \<Rightarrow> bool" where
  "is_whitespace c \<longleftrightarrow> (of_char c :: nat) \<in> {9, 10, 11, 12, 13, 32}"

definition digit_of :: "char \<Rightarrow> nat option" where
  "digit_of c =
     (let n = (of_char c :: nat) in if 48 \<le> n \<and> n \<le> 57 then Some (n - 48) else None)"

definition is_digit :: "char \<Rightarrow> bool" where
  "is_digit c \<longleftrightarrow> digit_of c \<noteq> None"

definition digits_value :: "string \<Rightarrow> nat" where
  "digits_value ds =
     foldl (\<lambda>acc c. case digit_of c of Some d \<Rightarrow> 10 * acc + d | None \<Rightarrow> acc) 0 ds"

definition parseInt :: "string \<Rightarrow> int option" where
  "parseInt s =
     (let t = dropWhile is_whitespace s;
          negative = (case t of c # _ \<Rightarrow> c = CHR ''-'' | [] \<Rightarrow> False);
          u = (case t of c # r \<Rightarrow> if c = CHR ''-'' \<or> c = CHR ''+'' then r else t | [] \<Rightarrow> []);
          ds = takeWhile is_digit u
      in if ds = [] then None
         else Some (if negative then - int (digits_value ds) else int (digits_value ds)))"

text \<open>\<open>!n\<close> for a number: \<open>NaN\<close> and zero are falsy.\<close>

definition falsy_number :: "int option \<Rightarrow> bool" where
  "falsy_number n \<longleftrightarrow> n = None \<or> n = Some 0"

text \<open>
  The collaborators of the provider, none of them in the sources:
  \<open>web3Contracts.getIndexInstance(address)\<close>, the index contract's
  \<open>methods.getHotels().call()\<close> and \<open>methods.hotelsIndex(addr).call()\<close>,
  \<open>hotelProviderFactory.getHotelInstance(index, addr)\<close> and
  \<open>web3Utils.isZeroAddress(addr)\<close>. A rejected promise is \<open>Inl\<close>.
\<close>

record ('ix, 'h) index_collaborators =
  getIndexInstance :: "string \<Rightarrow> js_error + 'ix"
  getHotels :: "'ix \<Rightarrow> js_error + string list"
  hotelsIndex :: "'ix \<Rightarrow> string \<Rightarrow> js_error + string"
  factory_getHotelInstance :: "'ix \<Rightarrow> string \<Rightarrow> js_error + 'h"
  isZeroAddress :: "string \<Rightarrow> bool"

text \<open>The calls that leave the provider, in the order they are issued.\<close>

datatype remote_call =
    GetIndexInstance
  | GetHotels
  | HotelsIndex string
  | GetHotelInstance string

text \<open>
  The provider object: its \<open>address\<close>, the memoized \<open>deployedIndex\<close>, and the calls
  issued so far.
\<close>

record 'ix Web3UriWTIndexDataProvider =
  index_address :: string
  deployedIndex :: "'ix option"
  calls :: "remote_call list"

definition getDeployedIndex ::
  "('ix, 'h) index_collaborators \<Rightarrow> 'ix Web3UriWTIndexDataProvider \<Rightarrow>
   (js_error + 'ix) \<times> 'ix Web3UriWTIndexDataProvider" where
  "getDeployedIndex w p =
     (case deployedIndex p of
        Some index \<Rightarrow> (Inr index, p)
      | None \<Rightarrow>
          (let p1 = p\<lparr>calls := calls p @ [GetIndexInstance]\<rparr> in
           case getIndexInstance w (index_address p) of
             Inl err \<Rightarrow> (Inl err, p1)
           | Inr index \<Rightarrow> (Inr index, p1\<lparr>deployedIndex := Some index\<rparr>)))"

definition createHotelInstance ::
  "('ix, 'h) index_collaborators \<Rightarrow> 'ix Web3UriWTIndexDataProvider \<Rightarrow> string \<Rightarrow>
   (js_error + 'h) \<times> 'ix Web3UriWTIndexDataProvider" where
  "createHotelInstance w p addr =
     (case getDeployedIndex w p of
        (Inl err, p1) \<Rightarrow> (Inl err, p1)
      | (Inr index, p1) \<Rightarrow>
          (factory_getHotelInstance w index addr,
           p1\<lparr>calls := calls p1 @ [GetHotelInstance addr]\<rparr>))"

text \<open>
  \<open>getHotel(address)\<close>. The index is fetched outside the \<open>try\<close>; a failure of
  \<open>hotelsIndex\<close> and a falsy index are rethrown as \<open>Cannot find hotel at ...\<close>; the promise
  of \<open>__createHotelInstance\<close> is returned without \<open>await\<close>, so its rejection is not
  wrapped.
\<close>

definition getHotel ::
  "('ix, 'h) index_collaborators \<Rightarrow> 'ix Web3UriWTIndexDataProvider \<Rightarrow> string \<Rightarrow>
   (js_error + 'h) \<times> 'ix Web3UriWTIndexDataProvider" where
  "getHotel w p addr =
     (case getDeployedIndex w p of
        (Inl err, p1) \<Rightarrow> (Inl err, p1)
      | (Inr index, p1) \<Rightarrow>
          (let p2 = p1\<lparr>calls := calls p1 @ [HotelsIndex addr]\<rparr> in
           case hotelsIndex w index addr of
             Inl err \<Rightarrow>
               (Inl (Error (''Cannot find hotel at '' @ addr @ '': '' @ message err)), p2)
           | Inr s \<Rightarrow>
               if falsy_number (parseInt s)
               then (Inl (Error (''Cannot find hotel at '' @ addr @ '': ''
                                  @ ''Not found in hotel list'')), p2)
               else createHotelInstance w p2 addr))"

text \<open>
  The \<open>map\<close> of \<open>getAllHotels\<close>: one \<open>getHotel\<close> per address, its rejection caught and
  replaced by \<open>null\<close> (\<open>None\<close>). \<open>Promise.all\<close> keeps the results in the order of the
  addresses; the calls are issued here one address after the other.
\<close>

fun getHotelDetails ::
  "('ix, 'h) index_collaborators \<Rightarrow> 'ix Web3UriWTIndexDataProvider \<Rightarrow> string list \<Rightarrow>
   'h option list \<times> 'ix Web3UriWTIndexDataProvider" where
  "getHotelDetails w p [] = ([], p)"
| "getHotelDetails w p (addr # rest) =
     (case getHotel w p addr of
        (r, p1) \<Rightarrow>
          (case getHotelDetails w p1 rest of
             (rs, p2) \<Rightarrow> ((case r of Inl err \<Rightarrow> None | Inr h \<Rightarrow> Some h) # rs, p2)))"

definition getAllHotels ::
  "('ix, 'h) index_collaborators \<Rightarrow> 'ix Web3UriWTIndexDataProvider \<Rightarrow>
   (js_error + 'h list) \<times> 'ix Web3UriWTIndexDataProvider" where
  "getAllHotels w p =
     (case getDeployedIndex w p of
        (Inl err, p1) \<Rightarrow> (Inl err, p1)
      | (Inr index, p1) \<Rightarrow>
          (let p2 = p1\<lparr>calls := calls p1 @ [GetHotels]\<rparr> in
           case getHotels w index of
             Inl err \<Rightarrow> (Inl err, p2)
           | Inr hotelsAddressList \<Rightarrow>
               (case getHotelDetails w p2
                       (filter (\<lambda>addr. \<not> isZeroAddress w addr) hotelsAddressList) of
                  (hotelDetails, p3) \<Rightarrow>
                    (Inr (List.map_filter (\<lambda>a. a) hotelDetails), p3))))"

text \<open>
  An index with four registered addresses: a zero address, a hotel, an address whose
  \<open>hotelsIndex\<close> is \<open>0\<close>, and a hotel whose instantiation is rejected.
\<close>

definition example_index :: "(nat, string) index_collaborators" where
  "example_index =
     \<lparr>getIndexInstance = (\<lambda>a. Inr 7),
      getHotels = (\<lambda>ix. Inr [''0x0'', ''0xa'', ''0xb'', ''0xc'', ''0xd'']),
      hotelsIndex = (\<lambda>ix a. if a = ''0xb'' then Inr ''0''
                              else if a = ''0xd'' then Inl (Error ''network'')
                              else Inr ''3''),
      factory_getHotelInstance = (\<lambda>ix a. if a = ''0xc'' then Inl (Error ''no schema'')
                                           else Inr (''hotel '' @ a)),
      isZeroAddress = (\<lambda>a. a = ''0x0'')\<rparr>"

definition example_provider :: "nat Web3UriWTIndexDataProvider" where
  "example_provider = \<lparr>index_address = ''0xindex'', deployedIndex = None, calls = []\<rparr>"

section \<open>Values held by the on-chain records\<close>

text \<open>
  The Flow type of a record's property is \<open>Promise<?string> | ?string\<close>: \<open>undefined\<close>,
  \<open>null\<close>, a string, or a promise, which is an object compared by reference.
\<close>

datatype js_value = Undefined | Null | Str string | PromiseRef nat

fun truthy :: "js_value \<Rightarrow> bool" where
  "truthy Undefined = False"
| "truthy Null = False"
| "truthy (Str s) = (s \<noteq> [])"
| "truthy (PromiseRef p) = True"

text \<open>\<open>typeof v === 'string'\<close>.\<close>

fun is_string :: "js_value \<Rightarrow> bool" where
  "is_string (Str s) = True"
| "is_string v = False"

section \<open>RemotelyBackedDataset\<close>

text \<open>
  Modelled from the spec: the class \<open>RemotelyBackedDataset\<close>, which the records import
  from \<open>../remotely-backed-dataset\<close> and which is not among the sources. What follows is
  the spec's data model (Field Binding, \<open>lifecycleState\<close>) and its sections 4.1 and 4.2.
  The remote getter of a field is the record's own code and is modelled with the
  record; the remote setter is kept as its identity.
\<close>

datatype lifecycleState = NotDeployed | Deployed | Obsolete

record field_binding =
  cachedValue :: "js_value option"
  isDirty :: bool
  remoteSetter :: "string option"

text \<open>Modelled from the spec: a field as \<open>bindProperties\<close> leaves it, unresolved until first access.\<close>

definition unresolved_field :: "string option \<Rightarrow> field_binding" where
  "unresolved_field setter = \<lparr>cachedValue = None, isDirty = False, remoteSetter = setter\<rparr>"

text \<open>
  Modelled from the spec: the transitions of section 4.1. \<open>markDeployed\<close> is
  \<open>NotDeployed \<rightarrow> Deployed\<close>, \<open>markObsolete\<close> is \<open>Deployed \<rightarrow> Obsolete\<close>, and nothing leaves
  \<open>Obsolete\<close>.
\<close>

fun markDeployed :: "lifecycleState \<Rightarrow> lifecycleState" where
  "markDeployed NotDeployed = Deployed"
| "markDeployed st = st"

fun markObsolete :: "lifecycleState \<Rightarrow> lifecycleState" where
  "markObsolete Deployed = Obsolete"
| "markObsolete st = st"


text \<open>
  Modelled from the spec: Read (section 4.2, with section 4.1 for \<open>Obsolete\<close>). The
  answer is what the dataset does next: hand out the cached value with no remote call,
  invoke the remote getter, or fail.
\<close>

datatype read_plan = Cached js_value | Fetch | Refuse js_error

definition dataset_read :: "lifecycleState \<Rightarrow> field_binding \<Rightarrow> read_plan" where
  "dataset_read st f =
     (if st = Obsolete then Refuse (ObsoleteRecordError [])
      else case cachedValue f of
             Some v \<Rightarrow> Cached v
           | None \<Rightarrow> if st = Deployed then Fetch else Refuse (NotDeployedError []))"

text \<open>Modelled from the spec: a successful remote read is cached.\<close>

definition dataset_fetched :: "field_binding \<Rightarrow> js_value \<Rightarrow> field_binding" where
  "dataset_fetched f v = f\<lparr>cachedValue := Some v\<rparr>"

text \<open>
  Modelled from the spec: Write (section 4.2). It fails on an \<open>Obsolete\<close> record;
  otherwise it stores the value, marks the field dirty and contacts nothing.
\<close>

definition dataset_write :: "lifecycleState \<Rightarrow> field_binding \<Rightarrow> js_value \<Rightarrow> js_error + field_binding" where
  "dataset_write st f v =
     (if st = Obsolete then Inl (ObsoleteRecordError [])
      else Inr (f\<lparr>cachedValue := Some v, isDirty := True\<rparr>))"

text \<open>
  Modelled from the spec: what the expression \<open>this._field\<close> is before it is awaited. It
  is the cached value when there is one; otherwise it is the pending read, an object
  that is truthy and identical to no value a caller can hold.
\<close>

definition field_is_falsy :: "field_binding \<Rightarrow> bool" where
  "field_is_falsy f = (case cachedValue f of Some v \<Rightarrow> \<not> truthy v | None \<Rightarrow> False)"

definition field_differs :: "js_value \<Rightarrow> field_binding \<Rightarrow> bool" where
  "field_differs v f \<longleftrightarrow> cachedValue f \<noteq> Some v"





section \<open>StoragePointer\<close>

text \<open>
  Modelled from the spec: the class \<open>StoragePointer\<close>, imported from
  \<open>../storage-pointer\<close> and not among the sources (spec, sections 3 and 4.3). A pointer
  wraps one URI and a schema of field descriptors; its document is \<open>None\<close> until it is
  resolved. A descriptor's \<open>fields\<close> is the schema of the document a pointer field leads
  to.
\<close>

datatype json =
    JNull
  | JBool bool
  | JNum int
  | JStr string
  | JArr "json list"
  | JObj "(string \<times> json) list"

datatype field_descriptor =
  FieldDescriptor (fd_name: string) (isStoragePointer: bool) (fd_fields: "field_descriptor list")

text \<open>
  Modelled from the spec: an entry of a resolved document is a raw value or a nested
  pointer. A nested pointer is held as what it was constructed with, its URI and its
  schema: it is not yet resolved, and the cache it will keep for itself is not part of
  its parent.
\<close>

datatype doc_entry = RawValue json | Pointer js_value "field_descriptor list"

datatype StoragePointer =
  StoragePointer (uri: js_value) (schema: "field_descriptor list")
    (resolvedDocument: "(string \<times> doc_entry) list option")

text \<open>Modelled from the spec: construction performs no remote call (laziness).\<close>

definition StoragePointer_createInstance ::
  "js_value \<Rightarrow> field_descriptor list \<Rightarrow> StoragePointer" where
  "StoragePointer_createInstance u fds = StoragePointer u fds None"


text \<open>
  Modelled from the spec: the scheme of a URI is the substring before \<open>://\<close>; a string
  with no \<open>://\<close> is not a well-formed URI.
\<close>

fun scheme_of :: "string \<Rightarrow> string option" where
  "scheme_of [] = None"
| "scheme_of (c # rest) =
     (if take 3 (c # rest) = ''://'' then Some []
      else map_option ((#) c) (scheme_of rest))"


text \<open>
  Modelled from the spec: the value of a field that the schema declares a storage
  pointer is replaced by a new, unresolved pointer over that URI with the descriptor's
  sub-schema; a value that is not a well-formed URI is a \<open>SchemaResolutionError\<close>.
  Every other field passes through as it is.
\<close>

definition wrap_entry :: "field_descriptor list \<Rightarrow> string \<times> json \<Rightarrow> js_error + string \<times> doc_entry" where
  "wrap_entry fds entry =
     (case entry of
        (k, v) \<Rightarrow>
          (case find (\<lambda>d. fd_name d = k \<and> isStoragePointer d) fds of
             None \<Rightarrow> Inr (k, RawValue v)
           | Some d \<Rightarrow>
               (case v of
                  JStr u \<Rightarrow>
                    if scheme_of u = None then Inl (SchemaResolutionError k)
                    else Inr (k, Pointer (Str u) (fd_fields d))
                | _ \<Rightarrow> Inl (SchemaResolutionError k))))"

fun wrap_document ::
  "field_descriptor list \<Rightarrow> (string \<times> json) list \<Rightarrow> js_error + (string \<times> doc_entry) list" where
  "wrap_document fds [] = Inr []"
| "wrap_document fds (entry # rest) =
     (case wrap_entry fds entry of
        Inl err \<Rightarrow> Inl err
      | Inr e \<Rightarrow>
          (case wrap_document fds rest of
             Inl err \<Rightarrow> Inl err
           | Inr es \<Rightarrow> Inr (e # es)))"

text \<open>
  Modelled from the spec: \<open>resolve()\<close>, behind the view \<open>contents\<close>. A cached document is
  returned as it is; otherwise the document is downloaded (\<open>dl\<close>), wrapped and memoized.
  A failure caches nothing.
\<close>

definition resolve ::
  "(string \<Rightarrow> js_error + (string \<times> json) list) \<Rightarrow> StoragePointer \<Rightarrow>
   (js_error + (string \<times> doc_entry) list) \<times> StoragePointer" where
  "resolve dl sp =
     (case resolvedDocument sp of
        Some doc \<Rightarrow> (Inr doc, sp)
      | None \<Rightarrow>
          (case uri sp of
             Str u \<Rightarrow>
               (case dl u of
                  Inl err \<Rightarrow> (Inl err, sp)
                | Inr raw \<Rightarrow>
                    (case wrap_document (schema sp) raw of
                       Inl err \<Rightarrow> (Inl err, sp)
                     | Inr doc \<Rightarrow> (Inr doc, StoragePointer (uri sp) (schema sp) (Some doc))))
           | _ \<Rightarrow> (Inl (RemoteDataReadError []), sp)))"

section \<open>OnChainHotel (src/unnamed/part_002)\<close>

text \<open>
  The collaborators of a record, all outside the sources. Each is asked at a time, the
  number of calls the record has issued so far, so that the same call can fail once and
  succeed later. \<open>contracts_getInstance\<close> is \<open>web3Contracts.getHotelInstance\<close> (for an
  airline \<open>getAirlineInstance\<close>), \<open>contract_call\<close> is
  \<open>instance.methods.<name>().call()\<close>, \<open>promised\<close> is what a promise the caller assigned
  settles to. The others belong to the index contract, \<open>web3Utils\<close> and the wallet.
\<close>

datatype index_method =
    DeleteHotel js_value
  | CallHotel js_value string
  | DeleteAirline js_value
  | CallAirline js_value string

record transactionOptions =
  tx_from :: js_value
  tx_to :: js_value

record transactionData =
  td_nonce :: nat
  td_data :: string
  td_from :: js_value
  td_to :: string
  td_gas :: nat

record 'ci chain_collaborators =
  contracts_getInstance :: "nat \<Rightarrow> js_value \<Rightarrow> js_error + 'ci"
  contract_call :: "nat \<Rightarrow> 'ci \<Rightarrow> string \<Rightarrow> js_error + js_value"
  promised :: "nat \<Rightarrow> js_error + js_value"
  editInfo_encodeABI :: "'ci \<Rightarrow> js_value \<Rightarrow> string"
  index_encodeABI :: "index_method \<Rightarrow> string"
  estimateGas :: "nat \<Rightarrow> index_method \<Rightarrow> transactionOptions \<Rightarrow> js_error + nat"
  determineCurrentAddressNonce :: "nat \<Rightarrow> js_value \<Rightarrow> js_error + nat"
  applyGasCoefficient :: "nat \<Rightarrow> nat"
  index_options_address :: string
  signAndSendTransaction :: "nat \<Rightarrow> transactionData \<Rightarrow> js_error + string"

text \<open>What a record asks of its collaborators, in the order it asks.\<close>

datatype remote_event =
    InstantiateContract
  | ContractCall string
  | EstimateGas
  | ReadNonce
  | SendTransaction
  | InvokeSetter string "(string \<times> js_value) list"
  | CreatePointer js_value

text \<open>
  What the two record classes share: \<open>address\<close>, the memoized \<open>contractInstance\<close>, the
  state of \<open>onChainDataset\<close>, and the events issued so far.
\<close>

record 'ci OnChainRecord =
  address :: js_value
  contractInstance :: "'ci option"
  lifecycleState :: lifecycleState
  events :: "remote_event list"

text \<open>
  An \<open>OnChainHotel\<close> after \<open>initialize\<close>: the dataset holds \<open>_dataUri\<close> and \<open>_manager\<close>;
  \<open>_dataIndex\<close> is the cached pointer.
\<close>

record 'ci OnChainHotel = "'ci OnChainRecord" +
  dataUri_field :: field_binding
  manager_field :: field_binding
  dataIndex_field :: "StoragePointer option"

definition log_event :: "remote_event \<Rightarrow> ('ci, 'z) OnChainRecord_scheme \<Rightarrow> ('ci, 'z) OnChainRecord_scheme" where
  "log_event e r = r\<lparr>events := events r @ [e]\<rparr>"

definition now :: "('ci, 'z) OnChainRecord_scheme \<Rightarrow> nat" where
  "now r = length (events r)"


text \<open>
  \<open>__getContractInstance()\<close>. The provider that \<open>web3Utils.getCurrentWeb3Provider()\<close>
  hands to the collaborator is the collaborator's business.
\<close>

definition hotel_getContractInstance ::
  "'ci chain_collaborators \<Rightarrow> 'ci OnChainHotel \<Rightarrow> (js_error + 'ci) \<times> 'ci OnChainHotel" where
  "hotel_getContractInstance w h =
     (if \<not> truthy (address h)
      then (Inl (Error ''Cannot get hotel instance without address''), h)
      else case contractInstance h of
             Some inst \<Rightarrow> (Inr inst, h)
           | None \<Rightarrow>
               (case contracts_getInstance w (now h) (address h) of
                  Inl err \<Rightarrow> (Inl err, log_event InstantiateContract h)
                | Inr inst \<Rightarrow>
                    (Inr inst, (log_event InstantiateContract h)\<lparr>contractInstance := Some inst\<rparr>)))"

text \<open>
  The remote getters bound in \<open>initialize\<close>:
  \<open>(await this.__getContractInstance()).methods.dataUri().call()\<close>, and the same for
  \<open>manager\<close>.
\<close>

definition hotel_remoteGetter ::
  "string \<Rightarrow> 'ci chain_collaborators \<Rightarrow> 'ci OnChainHotel \<Rightarrow> (js_error + js_value) \<times> 'ci OnChainHotel" where
  "hotel_remoteGetter name w h =
     (case hotel_getContractInstance w h of
        (Inl err, h1) \<Rightarrow> (Inl err, h1)
      | (Inr inst, h1) \<Rightarrow> (contract_call w (now h1) inst name, log_event (ContractCall name) h1))"

text \<open>
  \<open>await this._dataUri\<close> and \<open>await this._manager\<close>: the dataset's Read, with the remote
  getter where the dataset decides to fetch. A failed fetch is a \<open>RemoteDataReadError\<close>
  and caches nothing.
\<close>

definition read_dataUri ::
  "'ci chain_collaborators \<Rightarrow> 'ci OnChainHotel \<Rightarrow> (js_error + js_value) \<times> 'ci OnChainHotel" where
  "read_dataUri w h =
     (case dataset_read (lifecycleState h) (dataUri_field h) of
        Cached v \<Rightarrow> (Inr v, h)
      | Refuse err \<Rightarrow> (Inl err, h)
      | Fetch \<Rightarrow>
          (case hotel_remoteGetter ''dataUri'' w h of
             (Inl err, h1) \<Rightarrow> (Inl (RemoteDataReadError (message err)), h1)
           | (Inr v, h1) \<Rightarrow> (Inr v, h1\<lparr>dataUri_field := dataset_fetched (dataUri_field h1) v\<rparr>)))"


text \<open>\<open>await v\<close>: a promise gives what it settles to, any other value itself.\<close>

definition await :: "'ci chain_collaborators \<Rightarrow> js_value \<Rightarrow> js_error + js_value" where
  "await w v = (case v of PromiseRef p \<Rightarrow> promised w p | _ \<Rightarrow> Inr v)"

text \<open>\<open>get dataUri\<close> and \<open>get manager\<close>, awaited.\<close>

definition get_dataUri ::
  "'ci chain_collaborators \<Rightarrow> 'ci OnChainHotel \<Rightarrow> (js_error + js_value) \<times> 'ci OnChainHotel" where
  "get_dataUri w h =
     (if field_is_falsy (dataUri_field h) then (Inr Undefined, h)
      else case read_dataUri w h of
             (Inl err, h1) \<Rightarrow> (Inl err, h1)
           | (Inr v, h1) \<Rightarrow> (await w v, h1))"


text \<open>The schema \<open>get dataIndex\<close> declares for the document behind \<open>dataUri\<close>.\<close>

definition hotel_schema :: "field_descriptor list" where
  "hotel_schema =
     [FieldDescriptor ''descriptionUri'' True
        (map (\<lambda>n. FieldDescriptor n False [])
           [''location'', ''name'', ''description'', ''roomTypes'', ''contacts'', ''address'',
            ''timezone'', ''currency'', ''images'', ''amenities'', ''updatedAt''])]"

text \<open>\<open>get dataIndex\<close>, awaited.\<close>

definition get_dataIndex ::
  "'ci chain_collaborators \<Rightarrow> 'ci OnChainHotel \<Rightarrow> (js_error + StoragePointer) \<times> 'ci OnChainHotel" where
  "get_dataIndex w h =
     (case dataIndex_field h of
        Some sp \<Rightarrow> (Inr sp, h)
      | None \<Rightarrow>
          (case get_dataUri w h of
             (Inl err, h1) \<Rightarrow> (Inl err, h1)
           | (Inr u, h1) \<Rightarrow>
               (let sp = StoragePointer_createInstance u hotel_schema in
                (Inr sp, (log_event (CreatePointer u) h1)\<lparr>dataIndex_field := Some sp\<rparr>))))"

text \<open>
  The regular expression \<open>/([a-z-]+):\/\//\<close> of \<open>set dataUri\<close>, searched anywhere in the
  string: some character of \<open>[a-z-]\<close> is followed by \<open>://\<close>.
\<close>

definition scheme_char :: "char \<Rightarrow> bool" where
  "scheme_char c \<longleftrightarrow> (let n = (of_char c :: nat) in (97 \<le> n \<and> n \<le> 122) \<or> n = 45)"

fun matches_uri_shape :: "string \<Rightarrow> bool" where
  "matches_uri_shape [] = False"
| "matches_uri_shape (c # rest) =
     ((scheme_char c \<and> take 3 rest = ''://'') \<or> matches_uri_shape rest)"

text \<open>
  \<open>set dataUri\<close>. The setter returns the hotel as it leaves it, with the exception it
  threw, if any.
\<close>

definition set_dataUri :: "'ci OnChainHotel \<Rightarrow> js_value \<Rightarrow> js_error option \<times> 'ci OnChainHotel" where
  "set_dataUri h newDataUri =
     (if \<not> truthy newDataUri
      then (Some (Error ''Cannot update hotel: Cannot set dataUri when it is not provided''), h)
      else if is_string newDataUri
              \<and> \<not> (case newDataUri of Str s \<Rightarrow> matches_uri_shape s | _ \<Rightarrow> False)
      then (Some (Error ''Cannot update hotel: Cannot set dataUri with invalid format''), h)
      else
        (let h1 = (if field_differs newDataUri (dataUri_field h)
                   then h\<lparr>dataIndex_field := None\<rparr> else h) in
         case dataset_write (lifecycleState h1) (dataUri_field h1) newDataUri of
           Inl err \<Rightarrow> (Some err, h1)
         | Inr f \<Rightarrow> (None, h1\<lparr>dataUri_field := f\<rparr>)))"








section \<open>OnChainAirline (src/data-model/on-chain-airline.js)\<close>

text \<open>
  An \<open>OnChainAirline\<close> once \<open>initialize\<close> has run or thrown: \<open>bound_fields\<close> are the
  properties the dataset has bound on it, \<open>own_properties\<close> the ones assigned as plain
  properties, \<open>initialized\<close> is \<open>_initialized\<close>.
\<close>

record 'ci OnChainAirline = "'ci OnChainRecord" +
  bound_fields :: "(string \<times> field_binding) list"
  own_properties :: "(string \<times> js_value) list"
  initialized :: bool

text \<open>
  The methods the class body declares. \<open>this.<name>\<close> for any other name is
  \<open>undefined\<close>, and \<open>undefined.bind(this)\<close> throws a \<open>TypeError\<close>.
\<close>

definition OnChainAirline_methods :: "string list" where
  "OnChainAirline_methods =
     [''initialize'', ''setLocalData'', ''_getContractInstance'', ''_editEndpointOnChain'',
      ''createOnChainData'', ''updateOnChainData'', ''transferOnChainOwnership'',
      ''removeOnChainData'']"

definition bind_method :: "string \<Rightarrow> js_error + string" where
  "bind_method name =
     (if name \<in> set OnChainAirline_methods then Inr name
      else Inl (TypeError ''Cannot read properties of undefined (reading bind)''))"

text \<open>The constructor: it stores the address and nothing else.\<close>

definition OnChainAirline_new :: "js_value \<Rightarrow> 'ci OnChainAirline" where
  "OnChainAirline_new addr =
     \<lparr>address = addr, contractInstance = None, lifecycleState = NotDeployed, events = [],
      bound_fields = [], own_properties = [], initialized = False\<rparr>"

text \<open>
  \<open>initialize()\<close>. The dataset is created first; the argument of \<open>bindProperties\<close> is
  evaluated next, and with it \<open>this._editInfoOnChain.bind(this)\<close>, for \<open>_endpoint\<close> and for
  \<open>_token\<close>. Only then come \<open>bindProperties\<close>, \<open>_initialized = true\<close> and \<open>markDeployed\<close>.
\<close>

definition OnChainAirline_initialize ::
  "'ci OnChainAirline \<Rightarrow> js_error option \<times> 'ci OnChainAirline" where
  "OnChainAirline_initialize a =
     (let a1 = a\<lparr>lifecycleState := NotDeployed, bound_fields := []\<rparr> in
      case bind_method ''_editInfoOnChain'' of
        Inl err \<Rightarrow> (Some err, a1)
      | Inr setter \<Rightarrow>
          (let a2 = a1\<lparr>bound_fields :=
                          [(''_endpoint'', unresolved_field (Some setter)),
                           (''_manager'', unresolved_field None),
                           (''_token'', unresolved_field (Some setter))],
                       initialized := True\<rparr> in
           (None, if truthy (address a2)
                  then a2\<lparr>lifecycleState := markDeployed (lifecycleState a2)\<rparr> else a2)))"

definition OnChainAirline_createInstance ::
  "js_value \<Rightarrow> js_error + 'ci OnChainAirline" where
  "OnChainAirline_createInstance addr =
     (case OnChainAirline_initialize (OnChainAirline_new addr) of
        (Some err, a) \<Rightarrow> Inl err
      | (None, a) \<Rightarrow> Inr a)"

text \<open>
  \<open>this._name = v\<close>: the dataset's Write when the dataset has bound the property, a plain
  property otherwise.
\<close>

definition assign_property ::
  "string \<Rightarrow> js_value \<Rightarrow> 'ci OnChainAirline \<Rightarrow> js_error option \<times> 'ci OnChainAirline" where
  "assign_property name v a =
     (case map_of (bound_fields a) name of
        Some f \<Rightarrow>
          (case dataset_write (lifecycleState a) f v of
             Inl err \<Rightarrow> (Some err, a)
           | Inr f1 \<Rightarrow> (None, a\<lparr>bound_fields := AList.update name f1 (bound_fields a)\<rparr>))
      | None \<Rightarrow> (None, a\<lparr>own_properties := AList.update name v (own_properties a)\<rparr>))"

text \<open>\<open>set endpoint\<close>.\<close>

definition set_endpoint :: "'ci OnChainAirline \<Rightarrow> js_value \<Rightarrow> js_error option \<times> 'ci OnChainAirline" where
  "set_endpoint a newEndpoint =
     (if \<not> truthy newEndpoint
      then (Some (InputDataError
              ''Cannot update airline: Cannot set endpoint when it is not provided''), a)
      else if is_string newEndpoint
      then (Some (InputDataError
              ''Cannot update airline: Cannot set endpoint with invalid type, must be string''), a)
      else assign_property ''_endpoint'' newEndpoint a)"

text \<open>
  \<open>set token\<close>. The block of the second \<open>if\<close> is not closed in the source: the
  assignment \<open>this._token = newToken\<close> stands in it, after the \<open>throw\<close>, and is never
  reached.
\<close>

definition set_token :: "'ci OnChainAirline \<Rightarrow> js_value \<Rightarrow> js_error option \<times> 'ci OnChainAirline" where
  "set_token a newToken =
     (if \<not> truthy newToken
      then (Some (InputDataError ''Cannot update airline: Cannot set token to null''), a)
      else if is_string newToken
      then (Some (InputDataError
              ''Cannot update airline: Cannot set airline endpoint with invalid type, must be string''), a)
      else (None, a))"










section \<open>Example records and collaborators\<close>

text \<open>
  A chain on which every call succeeds, and one whose contract instantiation is always
  rejected. The hotel is the one of the tests, at its address on the index.
\<close>

definition example_chain :: "nat chain_collaborators" where
  "example_chain =
     \<lparr>contracts_getInstance = (\<lambda>t a. Inr 1),
      contract_call = (\<lambda>t inst name. if name = ''dataUri'' then Inr (Str ''json://urlone'')
                                       else Inr (Str ''0xd39c'')),
      promised = (\<lambda>p. Inr (Str ''json://later'')),
      editInfo_encodeABI = (\<lambda>inst v. ''editInfo''),
      index_encodeABI = (\<lambda>m. ''call''),
      estimateGas = (\<lambda>t m opts. Inr 21000),
      determineCurrentAddressNonce = (\<lambda>t a. Inr 5),
      applyGasCoefficient = (\<lambda>g. 2 * g),
      index_options_address = ''0xindex'',
      signAndSendTransaction = (\<lambda>t td. Inr ''0xhash'')\<rparr>"




text \<open>
  The hotel after its first \<open>await hotel.dataIndex\<close> on \<open>example_chain\<close>: the contract
  instance and \<open>_dataUri\<close> are cached, and so is the pointer over \<open>json://urlone\<close>.
\<close>

definition example_hotel_indexed :: "nat OnChainHotel" where
  "example_hotel_indexed =
     \<lparr>address = Str ''0xbf18'', contractInstance = Some 1, lifecycleState = Deployed,
      events = [InstantiateContract, ContractCall ''dataUri'',
                CreatePointer (Str ''json://urlone'')],
      dataUri_field = \<lparr>cachedValue = Some (Str ''json://urlone''), isDirty = False,
                        remoteSetter = Some ''__editInfoOnChain''\<rparr>,
      manager_field = unresolved_field None,
      dataIndex_field = Some (StoragePointer (Str ''json://urlone'') hotel_schema None)\<rparr>"






section \<open>toPlainObject\<close>


























section \<open>Properties of OffChainDataClient\<close>

lemma lower_char_idem: "lower_char (lower_char c) = lower_char c"
  unfolding lower_char_def Let_def by (cases c) auto

lemma toLowerCase_idem: "toLowerCase (toLowerCase s) = toLowerCase s"
  by (simp add: toLowerCase_def lower_char_idem)

lemma toLowerCase_Nil_iff: "toLowerCase s = [] \<longleftrightarrow> s = []"
  by (simp add: toLowerCase_def)

lemma setup_keys_result:
  "setup_keys declared acc = Inr registry \<Longrightarrow>
   registry = acc @ map (\<lambda>(k, c). (toLowerCase k, c)) declared"
proof (induction declared arbitrary: acc)
  case Nil
  then show ?case by simp
next
  case (Cons p declared)
  obtain key cfg where p: "p = (key, cfg)" by (cases p)
  from Cons.prems p
  have "setup_keys declared (acc @ [(toLowerCase key, cfg)]) = Inr registry"
    by (simp add: Let_def split: if_splits)
  from Cons.IH [OF this] p show ?case by simp
qed

lemma setup_keys_distinct:
  "setup_keys declared acc = Inr registry \<Longrightarrow> distinct (map fst acc) \<Longrightarrow>
   distinct (map fst registry)"
proof (induction declared arbitrary: acc)
  case Nil
  then show ?case by simp
next
  case (Cons p declared)
  obtain key cfg where p: "p = (key, cfg)" by (cases p)
  from Cons.prems(1) p
  have fresh: "\<not> js_in (toLowerCase key) acc"
    and rest: "setup_keys declared (acc @ [(toLowerCase key, cfg)]) = Inr registry"
    by (simp_all add: Let_def split: if_splits)
  from fresh have "toLowerCase key \<notin> set (map fst acc)"
    by (simp add: js_in_def)
  with Cons.prems(2) have "distinct (map fst (acc @ [(toLowerCase key, cfg)]))"
    by simp
  from Cons.IH [OF rest this] show ?case .
qed

lemma setup_registered:
  assumes ok: "OffChainDataClient_setup (Some ops) = Inr registry"
    and decl: "adapters ops = Some declared"
    and mem: "(k, cfg) \<in> set declared"
  shows "map_of registry (toLowerCase k) = Some cfg"
proof -
  from ok decl have run: "setup_keys declared [] = Inr registry"
    by (simp add: OffChainDataClient_setup_def)
  from setup_keys_result [OF run]
  have reg: "registry = map (\<lambda>(k, c). (toLowerCase k, c)) declared" by simp
  from setup_keys_distinct [OF run] have "distinct (map fst registry)" by simp
  moreover from mem reg have "(toLowerCase k, cfg) \<in> set registry" by force
  ultimately show ?thesis by simp
qed

text \<open>
  C6. Adapter lookup is case-insensitive. For every registry that \<open>setup\<close> configured and
  every scheme string \<open>s\<close>: \<open>getAdapter(s)\<close> is \<open>getAdapter\<close> of the lower-case form of
  \<open>s\<close>; two strings with the same lower-case form get the same answer; and for an
  adapter declared under a non-empty key \<open>k\<close>, every casing \<open>s\<close> of \<open>k\<close> is answered by
  \<open>create(options)\<close> of that adapter's own configuration.
\<close>

theorem getAdapter_case_insensitive:
  assumes "OffChainDataClient_setup (Some ops) = Inr registry"
  shows "OffChainDataClient_getAdapter registry (Some s) =
           OffChainDataClient_getAdapter registry (Some (toLowerCase s))
       \<and> (toLowerCase s = toLowerCase t \<longrightarrow>
           OffChainDataClient_getAdapter registry (Some s) =
             OffChainDataClient_getAdapter registry (Some t))
       \<and> (\<forall>declared k cfg.
             adapters ops = Some declared \<and> (k, cfg) \<in> set declared \<and> k \<noteq> [] \<and>
             toLowerCase s = toLowerCase k \<longrightarrow>
             OffChainDataClient_getAdapter registry (Some s) = create cfg (options cfg))"
proof (intro conjI allI impI)
  show "OffChainDataClient_getAdapter registry (Some s) =
          OffChainDataClient_getAdapter registry (Some (toLowerCase s))"
    by (simp add: OffChainDataClient_getAdapter_def toLowerCase_idem)
next
  assume "toLowerCase s = toLowerCase t"
  then show "OffChainDataClient_getAdapter registry (Some s) =
               OffChainDataClient_getAdapter registry (Some t)"
    by (simp add: OffChainDataClient_getAdapter_def)
next
  fix declared k cfg
  assume h: "adapters ops = Some declared \<and> (k, cfg) \<in> set declared \<and> k \<noteq> [] \<and>
             toLowerCase s = toLowerCase k"
  then have found: "map_of registry (toLowerCase s) = Some cfg"
    using setup_registered [OF assms, of declared k cfg] by simp
  from h have "toLowerCase s \<noteq> []"
    by (simp add: toLowerCase_Nil_iff)
  with found show "OffChainDataClient_getAdapter registry (Some s) = create cfg (options cfg)"
    by (simp add: OffChainDataClient_getAdapter_def js_get_def)
qed

lemma toLowerCase_examples:
  "toLowerCase ''JSON'' = ''json''" "toLowerCase ''in-memory'' = ''in-memory''"
  "toLowerCase ''Json'' = ''json''" "toLowerCase ''jSON'' = ''json''"
  by code_simp+

lemma example_setup: "OffChainDataClient_setup (Some example_options) = Inr example_registry"
  by (simp add: OffChainDataClient_setup_def example_options_def example_registry_def
      toLowerCase_examples js_in_def Object_prototype_keys_def)

theorem getAdapter_case_insensitive_witness:
  "OffChainDataClient_setup (Some example_options) = Inr example_registry
   \<and> OffChainDataClient_getAdapter example_registry (Some ''Json'') = Inr ''json-adapter''
   \<and> OffChainDataClient_getAdapter example_registry (Some ''Json'') =
       OffChainDataClient_getAdapter example_registry (Some ''jSON'')"
proof -
  have low: "toLowerCase ''Json'' = toLowerCase ''JSON''"
    and low2: "toLowerCase ''Json'' = toLowerCase ''jSON''"
    by (simp_all add: toLowerCase_examples)
  have decl: "adapters example_options = Some
        [(''JSON'', \<lparr>options = 1, create = (\<lambda>n. Inr ''json-adapter'')\<rparr>),
         (''in-memory'', \<lparr>options = 2, create = (\<lambda>n. Inr ''memory-adapter'')\<rparr>)]"
    by (simp add: example_options_def)
  note inst = getAdapter_case_insensitive [OF example_setup, of "''Json''" "''jSON''"]
  from inst low2
  have same: "OffChainDataClient_getAdapter example_registry (Some ''Json'') =
              OffChainDataClient_getAdapter example_registry (Some ''jSON'')"
    by blast
  from inst decl low
  have "OffChainDataClient_getAdapter example_registry (Some ''Json'') =
          create \<lparr>options = 1, create = (\<lambda>n. Inr ''json-adapter'')\<rparr>
            (options \<lparr>options = (1::nat), create = (\<lambda>n. Inr ''json-adapter'')\<rparr>)"
    by (elim conjE allE [where x = "[(''JSON'', \<lparr>options = 1, create = (\<lambda>n. Inr ''json-adapter'')\<rparr>),
         (''in-memory'', \<lparr>options = 2, create = (\<lambda>n. Inr ''memory-adapter'')\<rparr>)]"]) auto
  then have "OffChainDataClient_getAdapter example_registry (Some ''Json'') = Inr ''json-adapter''"
    by simp
  with example_setup same show ?thesis by simp
qed

section \<open>Properties of Web3UriWTIndexDataProvider\<close>

lemma map_filter_id_map: "List.map_filter (\<lambda>a. a) (map f xs) = List.map_filter f xs"
  by (induction xs) (simp_all split: option.splits)

lemma getDeployedIndex_memo:
  "deployedIndex p = Some index \<Longrightarrow> getDeployedIndex w p = (Inr index, p)"
  by (simp add: getDeployedIndex_def)

lemma getDeployedIndex_Inr:
  "getDeployedIndex w p = (Inr index, p1) \<Longrightarrow>
   deployedIndex p1 = Some index \<and> index_address p1 = index_address p \<and>
   (\<exists>cs. calls p1 = calls p @ cs \<and> set cs \<subseteq> {GetIndexInstance})"
  by (auto simp: getDeployedIndex_def Let_def split: option.splits sum.splits)

text \<open>
  On a provider that holds its index, \<open>getHotel\<close> keeps the index, issues calls about
  its own address only, and its answer does not depend on the calls issued before.
\<close>

lemma getHotel_deployed:
  assumes "deployedIndex p = Some index"
  shows "\<exists>cs. snd (getHotel w p a) = p\<lparr>calls := calls p @ cs\<rparr> \<and>
              set cs \<subseteq> {HotelsIndex a, GetHotelInstance a}"
proof (cases "hotelsIndex w index a")
  case (Inl err)
  with assms have "snd (getHotel w p a) = p\<lparr>calls := calls p @ [HotelsIndex a]\<rparr>"
    by (simp add: getHotel_def getDeployedIndex_def Let_def)
  then show ?thesis by (intro exI [where x = "[HotelsIndex a]"]) simp
next
  case (Inr s)
  show ?thesis
  proof (cases "falsy_number (parseInt s)")
    case True
    with Inr assms have "snd (getHotel w p a) = p\<lparr>calls := calls p @ [HotelsIndex a]\<rparr>"
      by (simp add: getHotel_def getDeployedIndex_def Let_def)
    then show ?thesis by (intro exI [where x = "[HotelsIndex a]"]) simp
  next
    case False
    with Inr assms
    have "snd (getHotel w p a) = p\<lparr>calls := calls p @ [HotelsIndex a, GetHotelInstance a]\<rparr>"
      by (simp add: getHotel_def createHotelInstance_def getDeployedIndex_def Let_def)
    then show ?thesis
      by (intro exI [where x = "[HotelsIndex a, GetHotelInstance a]"]) simp
  qed
qed

lemma getHotel_answer:
  assumes "deployedIndex p = Some index" and "deployedIndex q = Some index"
  shows "fst (getHotel w p a) = fst (getHotel w q a)"
  using assms
  by (simp add: getHotel_def createHotelInstance_def getDeployedIndex_def Let_def
      split: sum.splits)

lemma getHotelDetails_deployed:
  assumes "deployedIndex p = Some index"
  shows "fst (getHotelDetails w p as) =
           map (\<lambda>a. case fst (getHotel w p a) of Inl err \<Rightarrow> None | Inr h \<Rightarrow> Some h) as
       \<and> (\<exists>cs. snd (getHotelDetails w p as) = p\<lparr>calls := calls p @ cs\<rparr> \<and>
                (\<forall>c \<in> set cs. \<exists>a \<in> set as. c = HotelsIndex a \<or> c = GetHotelInstance a))"
  using assms
proof (induction as arbitrary: p)
  case Nil
  then show ?case by (simp add: exI [where x = "[]"])
next
  case (Cons a as)
  obtain r p1 where step: "getHotel w p a = (r, p1)" by (cases "getHotel w p a")
  from getHotel_deployed [OF Cons.prems, of w a] step
  obtain cs where p1: "p1 = p\<lparr>calls := calls p @ cs\<rparr>"
    and cs: "set cs \<subseteq> {HotelsIndex a, GetHotelInstance a}"
    by auto
  from p1 Cons.prems have dep1: "deployedIndex p1 = Some index" by simp
  obtain rs p2 where tail: "getHotelDetails w p1 as = (rs, p2)"
    by (cases "getHotelDetails w p1 as")
  from Cons.IH [OF dep1] tail
  obtain ds where rs: "rs = map (\<lambda>a. case fst (getHotel w p1 a) of Inl err \<Rightarrow> None
                                        | Inr h \<Rightarrow> Some h) as"
    and p2: "p2 = p1\<lparr>calls := calls p1 @ ds\<rparr>"
    and ds: "\<forall>c \<in> set ds. \<exists>a \<in> set as. c = HotelsIndex a \<or> c = GetHotelInstance a"
    by auto
  have same: "\<And>b. fst (getHotel w p1 b) = fst (getHotel w p b)"
    by (rule getHotel_answer [OF dep1 Cons.prems])
  have val: "fst (getHotelDetails w p (a # as)) =
        map (\<lambda>a. case fst (getHotel w p a) of Inl err \<Rightarrow> None | Inr h \<Rightarrow> Some h) (a # as)"
    using step tail rs same by simp
  have st: "snd (getHotelDetails w p (a # as)) = p\<lparr>calls := calls p @ (cs @ ds)\<rparr>"
    using step tail p1 p2 by simp
  have "\<forall>c \<in> set (cs @ ds). \<exists>b \<in> set (a # as). c = HotelsIndex b \<or> c = GetHotelInstance b"
    using cs ds by auto
  with val st show ?case by blast
qed

text \<open>
  C9. Once the index instance is there and the contract's \<open>getHotels\<close> has answered,
  \<open>getAllHotels\<close> resolves, whatever the single hotels do. Its list holds, in the
  contract's order, the hotel of every non-zero address whose \<open>getHotel\<close> resolves, and
  nothing for an address whose \<open>getHotel\<close> rejects. Every call issued after \<open>getHotels\<close>
  is about an address of the list that is not a zero address.
\<close>

theorem getAllHotels_resolves:
  assumes "getDeployedIndex w p = (Inr index, p1)"
    and "getHotels w index = Inr hotelsAddressList"
  shows "\<exists>p' new.
           getAllHotels w p =
             (Inr (List.map_filter
                     (\<lambda>a. case fst (getHotel w p1 a) of Inl err \<Rightarrow> None | Inr h \<Rightarrow> Some h)
                     (filter (\<lambda>a. \<not> isZeroAddress w a) hotelsAddressList)), p')
         \<and> calls p' = calls p1 @ GetHotels # new
         \<and> (\<forall>c \<in> set new. \<exists>a \<in> set hotelsAddressList.
                \<not> isZeroAddress w a \<and> (c = HotelsIndex a \<or> c = GetHotelInstance a))"
proof -
  let ?p2 = "p1\<lparr>calls := calls p1 @ [GetHotels]\<rparr>"
  let ?as = "filter (\<lambda>a. \<not> isZeroAddress w a) hotelsAddressList"
  from getDeployedIndex_Inr [OF assms(1)] have dep1: "deployedIndex p1 = Some index"
    by simp
  then have dep2: "deployedIndex ?p2 = Some index" by simp
  obtain rs p3 where run: "getHotelDetails w ?p2 ?as = (rs, p3)"
    by (cases "getHotelDetails w ?p2 ?as")
  from getHotelDetails_deployed [OF dep2, of w ?as] run
  obtain cs where rs: "rs = map (\<lambda>a. case fst (getHotel w ?p2 a) of Inl err \<Rightarrow> None
                                        | Inr h \<Rightarrow> Some h) ?as"
    and p3: "p3 = ?p2\<lparr>calls := calls ?p2 @ cs\<rparr>"
    and cs: "\<forall>c \<in> set cs. \<exists>a \<in> set ?as. c = HotelsIndex a \<or> c = GetHotelInstance a"
    by auto
  have same: "\<And>b. fst (getHotel w ?p2 b) = fst (getHotel w p1 b)"
    by (rule getHotel_answer [OF dep2 dep1])
  have "getAllHotels w p =
          (Inr (List.map_filter
                  (\<lambda>a. case fst (getHotel w p1 a) of Inl err \<Rightarrow> None | Inr h \<Rightarrow> Some h) ?as), p3)"
    using assms run rs same
    by (simp add: getAllHotels_def Let_def map_filter_id_map)
  moreover have "calls p3 = calls p1 @ GetHotels # cs"
    using p3 by simp
  moreover have "\<forall>c \<in> set cs. \<exists>a \<in> set hotelsAddressList.
                   \<not> isZeroAddress w a \<and> (c = HotelsIndex a \<or> c = GetHotelInstance a)"
    using cs by auto
  ultimately show ?thesis by blast
qed

lemma parseInt_examples: "parseInt ''0'' = Some 0" "parseInt ''3'' = Some 3"
  by code_simp+

lemma example_getDeployedIndex:
  "getDeployedIndex example_index example_provider =
     (Inr 7, \<lparr>index_address = ''0xindex'', deployedIndex = Some 7, calls = [GetIndexInstance]\<rparr>)"
  by (simp add: getDeployedIndex_def example_index_def example_provider_def)

lemma example_getHotels:
  "getHotels example_index 7 = Inr [''0x0'', ''0xa'', ''0xb'', ''0xc'', ''0xd'']"
  by (simp add: example_index_def)

theorem getAllHotels_resolves_witness:
  "fst (getAllHotels example_index example_provider) = Inr [''hotel 0xa'']"
proof -
  let ?p1 = "\<lparr>index_address = ''0xindex'', deployedIndex = Some (7::nat),
              calls = [GetIndexInstance]\<rparr>"
  have a: "fst (getHotel example_index ?p1 ''0xa'') = Inr ''hotel 0xa''"
    and b: "fst (getHotel example_index ?p1 ''0xb'') =
              Inl (Error ''Cannot find hotel at 0xb: Not found in hotel list'')"
    and c: "fst (getHotel example_index ?p1 ''0xc'') = Inl (Error ''no schema'')"
    and d: "fst (getHotel example_index ?p1 ''0xd'') =
              Inl (Error ''Cannot find hotel at 0xd: network'')"
    by (simp_all add: getHotel_def createHotelInstance_def getDeployedIndex_def Let_def
        example_index_def parseInt_examples falsy_number_def)
  have z: "filter (\<lambda>a. \<not> isZeroAddress example_index a)
             [''0x0'', ''0xa'', ''0xb'', ''0xc'', ''0xd''] = [''0xa'', ''0xb'', ''0xc'', ''0xd'']"
    by (simp add: example_index_def)
  from getAllHotels_resolves [OF example_getDeployedIndex example_getHotels]
  obtain p' where
    "getAllHotels example_index example_provider =
       (Inr (List.map_filter
               (\<lambda>a. case fst (getHotel example_index ?p1 a) of Inl err \<Rightarrow> None
                     | Inr h \<Rightarrow> Some h)
               (filter (\<lambda>a. \<not> isZeroAddress example_index a)
                  [''0x0'', ''0xa'', ''0xb'', ''0xc'', ''0xd''])), p')"
    by blast
  then have "fst (getAllHotels example_index example_provider) =
      Inr (List.map_filter
        (\<lambda>a. case fst (getHotel example_index ?p1 a) of Inl err \<Rightarrow> None | Inr h \<Rightarrow> Some h)
        [''0xa'', ''0xb'', ''0xc'', ''0xd''])"
    by (simp only: z fst_conv)
  then show ?thesis
    by (simp add: a b c d)
qed

section \<open>Properties of OnChainHotel\<close>




lemma await_Str: "await w (Str s) = Inr (Str s)"
  by (simp add: await_def)

lemma set_dataUri_success:
  assumes "set_dataUri h v = (None, h1)"
  shows "truthy v" and "lifecycleState h \<noteq> Obsolete"
    and "h1 = (if field_differs v (dataUri_field h) then h\<lparr>dataIndex_field := None\<rparr> else h)
               \<lparr>dataUri_field := (dataUri_field h)\<lparr>cachedValue := Some v, isDirty := True\<rparr>\<rparr>"
  using assms
  by (auto simp: set_dataUri_def dataset_write_def Let_def split: if_splits)

text \<open>
  C4. When an assignment to \<open>dataUri\<close> succeeds with a value different from the cached
  one, the cached \<open>_dataIndex\<close> is dropped, and the next access to \<open>dataIndex\<close> constructs
  a new pointer over what the new value awaits to (the string itself, for a string).
  When the value equals the cached one, \<open>_dataIndex\<close> is left as it is, and an existing
  pointer is handed out again with no construction. In no case, failed assignments
  included, does the setter leave a pointer other than the one it found: the slot is
  kept or emptied, never written to.
\<close>

theorem set_dataUri_invalidates_dataIndex:
  fixes h :: "'ci OnChainHotel"
  shows
  "(set_dataUri h v = (None, h1) \<and> field_differs v (dataUri_field h) \<longrightarrow>
      dataIndex_field h1 = None
      \<and> (\<forall>w u. await w v = Inr u \<longrightarrow>
            get_dataIndex w h1 =
              (Inr (StoragePointer u hotel_schema None),
               (log_event (CreatePointer u) h1)
                 \<lparr>dataIndex_field := Some (StoragePointer u hotel_schema None)\<rparr>)))
   \<and> (set_dataUri h v = (None, h1) \<and> \<not> field_differs v (dataUri_field h) \<longrightarrow>
      dataIndex_field h1 = dataIndex_field h
      \<and> (\<forall>w sp. dataIndex_field h = Some sp \<longrightarrow> get_dataIndex w h1 = (Inr sp, h1)))
   \<and> (dataIndex_field (snd (set_dataUri h v)) = None
      \<or> dataIndex_field (snd (set_dataUri h v)) = dataIndex_field h)"
proof (intro conjI impI allI)
  assume a: "set_dataUri h v = (None, h1) \<and> field_differs v (dataUri_field h)"
  then show none: "dataIndex_field h1 = None"
    using set_dataUri_success(3) [of h v h1] by simp
  fix w :: "'ci chain_collaborators" and u
  assume u: "await w v = Inr u"
  from a have t: "truthy v" and l: "lifecycleState h \<noteq> Obsolete"
    using set_dataUri_success [of h v h1] by simp_all
  from a have c: "cachedValue (dataUri_field h1) = Some v"
    and l1: "lifecycleState h1 = lifecycleState h"
    using set_dataUri_success(3) [of h v h1] by simp_all
  from c t l l1 have "read_dataUri w h1 = (Inr v, h1)"
    by (simp add: read_dataUri_def dataset_read_def)
  with c t u have "get_dataUri w h1 = (Inr u, h1)"
    by (simp add: get_dataUri_def field_is_falsy_def)
  with none show "get_dataIndex w h1 =
      (Inr (StoragePointer u hotel_schema None),
       (log_event (CreatePointer u) h1)
         \<lparr>dataIndex_field := Some (StoragePointer u hotel_schema None)\<rparr>)"
    by (simp add: get_dataIndex_def StoragePointer_createInstance_def Let_def)
next
  assume a: "set_dataUri h v = (None, h1) \<and> \<not> field_differs v (dataUri_field h)"
  then show same: "dataIndex_field h1 = dataIndex_field h"
    using set_dataUri_success(3) [of h v h1] by simp
  fix w :: "'ci chain_collaborators" and sp
  assume "dataIndex_field h = Some sp"
  with same show "get_dataIndex w h1 = (Inr sp, h1)"
    by (simp add: get_dataIndex_def)
next
  show "dataIndex_field (snd (set_dataUri h v)) = None
      \<or> dataIndex_field (snd (set_dataUri h v)) = dataIndex_field h"
    by (simp add: set_dataUri_def Let_def split: sum.splits)
qed


theorem set_dataUri_invalidates_dataIndex_witness:
  "fst (set_dataUri example_hotel_indexed (Str ''json://another-url'')) = None
   \<and> dataIndex_field (snd (set_dataUri example_hotel_indexed (Str ''json://another-url''))) = None
   \<and> fst (get_dataIndex example_chain
            (snd (set_dataUri example_hotel_indexed (Str ''json://another-url'')))) =
       Inr (StoragePointer (Str ''json://another-url'') hotel_schema None)
   \<and> fst (set_dataUri example_hotel_indexed (Str ''json://urlone'')) = None
   \<and> dataIndex_field (snd (set_dataUri example_hotel_indexed (Str ''json://urlone''))) =
       Some (StoragePointer (Str ''json://urlone'') hotel_schema None)"
proof -
  let ?new = "Str ''json://another-url''" and ?old = "Str ''json://urlone''"
  have m: "matches_uri_shape ''json://another-url''" "matches_uri_shape ''json://urlone''"
    by code_simp+
  define h1 where "h1 = snd (set_dataUri example_hotel_indexed ?new)"
  define h2 where "h2 = snd (set_dataUri example_hotel_indexed ?old)"
  have "fst (set_dataUri example_hotel_indexed ?new) = None"
    using m
    by (simp add: set_dataUri_def dataset_write_def field_differs_def
        example_hotel_indexed_def Let_def)
  then have new: "set_dataUri example_hotel_indexed ?new = (None, h1)"
    by (simp add: h1_def prod_eq_iff)
  have "fst (set_dataUri example_hotel_indexed ?old) = None"
    using m
    by (simp add: set_dataUri_def dataset_write_def field_differs_def
        example_hotel_indexed_def Let_def)
  then have old: "set_dataUri example_hotel_indexed ?old = (None, h2)"
    by (simp add: h2_def prod_eq_iff)
  have d: "field_differs ?new (dataUri_field example_hotel_indexed)"
    and e: "\<not> field_differs ?old (dataUri_field example_hotel_indexed)"
    by (simp_all add: field_differs_def example_hotel_indexed_def)
  from set_dataUri_invalidates_dataIndex [of example_hotel_indexed ?new h1] new d
  have "dataIndex_field h1 = None"
    and "fst (get_dataIndex example_chain h1) =
           Inr (StoragePointer ?new hotel_schema None)"
    by (simp_all add: await_Str)
  moreover from set_dataUri_invalidates_dataIndex [of example_hotel_indexed ?old h2] old e
  have "dataIndex_field h2 = Some (StoragePointer ?old hotel_schema None)"
    by (simp add: example_hotel_indexed_def)
  ultimately show ?thesis using new old by simp
qed

section \<open>Memoization\<close>


















section \<open>Commit and destroy on a record that is not deployed\<close>






section \<open>What the airline's source does to a commit and to a local write\<close>

text \<open>
  C2. The class has no method \<open>_editInfoOnChain\<close> (its setter is named
  \<open>_editEndpointOnChain\<close>), so \<open>initialize\<close> throws a \<open>TypeError\<close> while it builds the
  argument of \<open>bindProperties\<close>: no property is bound, \<open>_initialized\<close> stays unset, the
  dataset is never marked deployed, and \<open>createInstance\<close> throws for every address.
\<close>

theorem initialize_throws_TypeError:
  "OnChainAirline_initialize a =
     (Some (TypeError ''Cannot read properties of undefined (reading bind)''),
      a\<lparr>lifecycleState := NotDeployed, bound_fields := []\<rparr>)
   \<and> OnChainAirline_createInstance addr =
     (Inl (TypeError ''Cannot read properties of undefined (reading bind)'')
        :: js_error + 'ci OnChainAirline)"
  by (simp add: OnChainAirline_initialize_def OnChainAirline_createInstance_def
      bind_method_def OnChainAirline_methods_def Let_def)

text \<open>
  C3. For every non-empty string, \<open>airline.endpoint = v\<close> throws an \<open>InputDataError\<close>
  and stores nothing, in every state of the airline; so does \<open>airline.token = v\<close>. The
  test \<open>typeof newEndpoint === 'string'\<close> rejects exactly the values its message asks for.
\<close>

theorem set_endpoint_rejects_strings:
  "set_endpoint a (Str (c # s)) =
     (Some (InputDataError
        ''Cannot update airline: Cannot set endpoint with invalid type, must be string''), a)
   \<and> set_token a (Str (c # s)) =
     (Some (InputDataError
        ''Cannot update airline: Cannot set airline endpoint with invalid type, must be string''), a)"
  by (simp add: set_endpoint_def set_token_def)

section \<open>The view \<open>ref\<close> of a StoragePointer\<close>


lemma resolve_None_iff:
  "resolvedDocument (snd (resolve dl sp)) \<noteq> None \<longleftrightarrow>
   resolvedDocument sp \<noteq> None \<or> (\<exists>doc. fst (resolve dl sp) = Inr doc)"
  by (cases sp)
     (auto simp: resolve_def split: option.splits js_value.splits sum.splits)









section \<open>Selective materialization\<close>

























end
